theory Spec2Isabelle
  imports
    Main
    "HOL-Library.Word"
    "HOL-Library.Char_ord"
    "HOL-Library.List_Lexorder"
    "HOL-Library.Multiset"
begin

unbundle bit_operations_syntax

section \<open>Errors and outcomes\<close>

text \<open>
  The package's sentinel errors (\<^verbatim>\<open>errors.New\<close>) are constructors of their own.
  \<open>errExternal\<close> stands for an error value made outside the package (what a versioner,
  a querier or a pluggable shard function hands back). \<open>Errorf format args inner\<close> is
  the value of \<^verbatim>\<open>fmt.Errorf(format, args..., inner)\<close> where the format ends in the
  \<^verbatim>\<open>%w\<close> verb: it keeps the format, the string arguments and the wrapped error.
\<close>

datatype error =
    errUnknownBackupShard
  | errNoActiveReplicas
  | errShardOperationVers
  | errShardOperationUnsupported
  | errExternal string
  | Errorf string "string list" error

text \<open>\<^verbatim>\<open>errors.Is\<close>: the error itself or any error down its chain of wrapped errors.\<close>

fun errors_Is :: "error \<Rightarrow> error \<Rightarrow> bool" where
  "errors_Is (Errorf format args inner) target =
     (Errorf format args inner = target \<or> errors_Is inner target)"
| "errors_Is err target = (err = target)"

text \<open>
  A Go function either returns its results or unwinds with a run-time panic.
  A pair \<open>(v, err)\<close> with \<open>err :: error option\<close> is Go's \<^verbatim>\<open>(v, error)\<close> result,
  \<open>None\<close> being \<^verbatim>\<open>nil\<close>.
\<close>

datatype 'a outcome = Returns 'a | Panics

text \<open>The calls the core makes to its collaborators, in the order they are made.\<close>

datatype call = CallGetVersion | CallDetermineShards | CallStructSelectContext string

section \<open>Version gate (pkg/backup/version.go)\<close>

definition minVersShardOp :: int where
  "minVersShardOp = 21000000"

text \<open>
  A versioner is given by what its \<^verbatim>\<open>GetVersion\<close> returns: the version and the error.
  The interface allows any pair, also a version together with an error.
\<close>

type_synonym versioner = "int \<times> error option"

definition GetVersion :: "versioner \<Rightarrow> (int \<times> error option) \<times> call list" where
  "GetVersion v = (v, [CallGetVersion])"

definition canShardOperation :: "versioner \<Rightarrow> error option \<times> call list" where
  "canShardOperation v =
     (case GetVersion v of ((version, err), calls) \<Rightarrow>
        if err \<noteq> None then (err, calls)
        else if version < minVersShardOp then (Some errShardOperationVers, calls)
        else (None, calls))"

section \<open>Shard determination\<close>

text \<open>
  \<^verbatim>\<open>shardDetermination\<close> is a Go map from the qualified table name to a boolean;
  \<open>None\<close> is the \<^verbatim>\<open>nil\<close> map, which reads as a map without keys.
\<close>

type_synonym shardDetermination = "(string \<rightharpoonup> bool) option"

definition mapIndex :: "shardDetermination \<Rightarrow> string \<Rightarrow> bool option" where
  "mapIndex d k = (case d of None \<Rightarrow> None | Some m \<Rightarrow> m k)"

definition inShard :: "shardDetermination \<Rightarrow> string \<Rightarrow> string \<Rightarrow> bool \<times> error option" where
  "inShard d database table =
     (let fullName = database @ ''.'' @ table in
      case mapIndex d fullName of
        None \<Rightarrow>
          (False, Some (Errorf ''error determining backup shard state for %q: %w''
                          [fullName] errUnknownBackupShard))
      | Some presentInShard \<Rightarrow> (presentInShard, None))"

text \<open>
  \<^verbatim>\<open>tableReplicaMetadata\<close>: one row of \<^verbatim>\<open>system.replicas\<close>. The Go map
  \<^verbatim>\<open>ReplicaIsActive\<close> is the list of its entries in the order a \<^verbatim>\<open>range\<close> loop
  meets them, which Go leaves unspecified; a list that enumerates a map has pairwise
  different keys.
\<close>

record tableReplicaMetadata =
  Database :: string
  Table :: string
  ReplicaName :: string
  ReplicaIsActive :: "(string \<times> int) list"

definition fullName :: "tableReplicaMetadata \<Rightarrow> string" where
  "fullName md = Database md @ ''.'' @ Table md"

text \<open>
  \<^verbatim>\<open>hash/fnv\<close> of the Go standard library, \<^verbatim>\<open>New32a\<close>, \<^verbatim>\<open>Write\<close> and
  \<^verbatim>\<open>Sum32\<close>: starting from the offset basis, every byte is xor-ed into the 32-bit
  state, which is then multiplied by the FNV prime, wrapping around.
\<close>

definition offset32 :: "32 word" where
  "offset32 = 2166136261"

definition prime32 :: "32 word" where
  "prime32 = 16777619"

fun fnv32a_Write :: "32 word \<Rightarrow> string \<Rightarrow> 32 word" where
  "fnv32a_Write hash [] = hash"
| "fnv32a_Write hash (c # data) = fnv32a_Write ((hash XOR of_char c) * prime32) data"

definition fnv32a :: "string \<Rightarrow> 32 word" where
  "fnv32a data = fnv32a_Write offset32 data"

text \<open>The \<^verbatim>\<open>range\<close> loop of \<^verbatim>\<open>fnvHashModShardFunc\<close> that collects the active replicas.\<close>

fun collectActive :: "(string \<times> int) list \<Rightarrow> string list \<Rightarrow> string list" where
  "collectActive [] activeReplicas = activeReplicas"
| "collectActive ((replica, active) # rest) activeReplicas =
     collectActive rest (if active > 0 then activeReplicas @ [replica] else activeReplicas)"

text \<open>
  \<^verbatim>\<open>sort.Strings\<close> orders strings bytewise, a proper prefix first: the order of
  \<open>char list\<close> here. The length of the slice is converted to \<^verbatim>\<open>uint32\<close> before
  the remainder is taken, and a zero divisor is a run-time panic in Go.
\<close>

definition fnvHashModShardFunc :: "tableReplicaMetadata \<Rightarrow> (bool \<times> error option) outcome" where
  "fnvHashModShardFunc md =
     (let activeReplicas = collectActive (ReplicaIsActive md) [] in
      if length activeReplicas = 0 then
        Returns (False, Some (Errorf ''could not determine in-shard state for %s: %w''
                                [fullName md] errNoActiveReplicas))
      else
        let activeReplicas = sort activeReplicas;
            h = fnv32a (fullName md);
            n = (of_nat (length activeReplicas) :: 32 word)
        in if n = 0 then Panics
           else let i = h mod n in
             if unat i < length activeReplicas
             then Returns (activeReplicas ! unat i = ReplicaName md, None)
             else Panics)"

type_synonym shardFunc = "tableReplicaMetadata \<Rightarrow> (bool \<times> error option) outcome"

text \<open>
  A querier is given by what \<^verbatim>\<open>StructSelectContext\<close> does for a query text: the rows
  it decodes into the destination and the error it returns.
\<close>

type_synonym querier = "string \<Rightarrow> tableReplicaMetadata list \<times> error option"

record replicaDeterminer =
  rd_q :: querier
  rd_sf :: shardFunc

definition getReplicaState ::
  "replicaDeterminer \<Rightarrow> (tableReplicaMetadata list \<times> error option) \<times> call list" where
  "getReplicaState rd =
     (let query = ''SELECT database, table, replica_name, replica_is_active FROM system.replicas;''
      in case rd_q rd query of
           (md, Some err) \<Rightarrow>
             (([], Some (Errorf ''could not determine replication state: %w'' [] err)),
              [CallStructSelectContext query])
         | (md, None) \<Rightarrow> ((md, None), [CallStructSelectContext query]))"

text \<open>The loop of \<^verbatim>\<open>determineShards\<close> over the rows, \<open>sd\<close> being the map built so far.\<close>

fun determineLoop ::
  "shardFunc \<Rightarrow> tableReplicaMetadata list \<Rightarrow> (string \<rightharpoonup> bool)
     \<Rightarrow> (shardDetermination \<times> error option) outcome" where
  "determineLoop sf [] sd = Returns (Some sd, None)"
| "determineLoop sf (entry # md) sd =
     (case sf entry of
        Panics \<Rightarrow> Panics
      | Returns (assigned, Some err) \<Rightarrow> Returns (None, Some err)
      | Returns (assigned, None) \<Rightarrow> determineLoop sf md (sd(fullName entry \<mapsto> assigned)))"

text \<open>
  The interface \<^verbatim>\<open>backupSharder\<close>: an implementation is given by what its
  \<^verbatim>\<open>determineShards\<close> does, the outcome and the calls it makes on the way.
\<close>

type_synonym backupSharder = "(shardDetermination \<times> error option) outcome \<times> call list"

definition determineShards :: "replicaDeterminer \<Rightarrow> backupSharder" where
  "determineShards rd =
     (case getReplicaState rd of
        ((md, Some err), calls) \<Rightarrow> (Returns (None, Some err), calls)
      | ((md, None), calls) \<Rightarrow> (determineLoop (rd_sf rd) md Map.empty, calls))"

section \<open>The orchestration step\<close>

text \<open>
  Modelled from the spec: the declaration of \<^verbatim>\<open>clickhouse.ShardBackupType\<close> and of
  \<^verbatim>\<open>clickhouse.Table\<close> is not among the sources. The spec gives a table a database, a
  name and a backup kind that is Full or SchemaOnly; the tests build tables without
  setting the kind, so \<open>ShardBackupOther\<close> stands for any other value a table carries
  when the step starts. Every further field of a table lives in the record's extension.
\<close>

datatype ShardBackupType = ShardBackupFull | ShardBackupSchema | ShardBackupOther string

record clickhouse_Table =
  Database :: string
  Name :: string
  BackupType :: ShardBackupType

record Backuper =
  ShardedOperation :: bool
  vers :: versioner
  bs :: backupSharder

text \<open>
  The second loop of \<^verbatim>\<open>populateBackupShardField\<close>. The slice is written in place, so
  at an error the tables before the failing one keep what the loop wrote.
\<close>

fun assignLoop ::
  "shardDetermination \<Rightarrow> 'a clickhouse_Table_scheme list
     \<Rightarrow> 'a clickhouse_Table_scheme list \<times> error option" where
  "assignLoop assignment [] = ([], None)"
| "assignLoop assignment (t # tables) =
     (case inShard assignment (Database t) (Name t) of
        (typ, Some err) \<Rightarrow> (t # tables, Some err)
      | (typ, None) \<Rightarrow>
          (case assignLoop assignment tables of
             (tables', err) \<Rightarrow>
               ((if \<not> typ then t\<lparr>BackupType := ShardBackupSchema\<rparr> else t) # tables', err)))"

text \<open>
  The result is the slice as the step leaves it, what the step returns (or that it
  panicked) and the calls it made.
\<close>

definition populateBackupShardField ::
  "Backuper \<Rightarrow> 'a clickhouse_Table_scheme list
     \<Rightarrow> 'a clickhouse_Table_scheme list \<times> error option outcome \<times> call list" where
  "populateBackupShardField b tables =
     (let tables = map (\<lambda>t. t\<lparr>BackupType := ShardBackupFull\<rparr>) tables in
      if \<not> ShardedOperation b then (tables, Returns None, [])
      else
        case canShardOperation (vers b) of
          (Some err, calls) \<Rightarrow> (tables, Returns (Some err), calls)
        | (None, calls) \<Rightarrow>
            (case bs b of
               (Panics, calls') \<Rightarrow> (tables, Panics, calls @ CallDetermineShards # calls')
             | (Returns (assignment, Some err), calls') \<Rightarrow>
                 (tables, Returns (Some err), calls @ CallDetermineShards # calls')
             | (Returns (assignment, None), calls') \<Rightarrow>
                 (case assignLoop assignment tables of
                    (tables', err) \<Rightarrow>
                      (tables', Returns err, calls @ CallDetermineShards # calls'))))"

section \<open>The version gate\<close>

text \<open>
  C4: whatever the versioner, a retrieval error comes back as it is, not wrapped; with
  no retrieval error a version below 21000000 gives \<open>errShardOperationVers\<close> and any
  version from 21000000 on gives no error. The accessor is called exactly once.
\<close>

theorem canShardOperation_gate:
  "canShardOperation (version, Some err) = (Some err, [CallGetVersion]) \<and>
   (version < 21000000 \<longrightarrow>
      canShardOperation (version, None) = (Some errShardOperationVers, [CallGetVersion])) \<and>
   (21000000 \<le> version \<longrightarrow> canShardOperation (version, None) = (None, [CallGetVersion]))"
  by (simp add: canShardOperation_def GetVersion_def minVersShardOp_def)

theorem canShardOperation_gate_witness:
  "canShardOperation (-1, Some (errExternal ''error'')) =
     (Some (errExternal ''error''), [CallGetVersion]) \<and>
   (-1 :: int) < 21000000 \<and>
   canShardOperation (-1, None) = (Some errShardOperationVers, [CallGetVersion]) \<and>
   (21000000 :: int) \<le> 21000000 \<and>
   canShardOperation (21000000, None) = (None, [CallGetVersion])"
  using canShardOperation_gate [of "-1" "errExternal ''error''"]
    canShardOperation_gate [of 21000000 "errExternal ''error''"]
  by simp

section \<open>Lookup in a shard determination\<close>

text \<open>
  C6: for a key that is not in the map (also for the nil map) \<open>inShard\<close> returns false
  with an error that wraps \<open>errUnknownBackupShard\<close> and carries the qualified name; for
  a key that is in the map it returns the stored boolean, true or false, and no error.
\<close>

theorem inShard_lookup:
  "inShard None database table =
     (False, Some (Errorf ''error determining backup shard state for %q: %w''
                     [database @ ''.'' @ table] errUnknownBackupShard)) \<and>
   (m (database @ ''.'' @ table) = None \<longrightarrow>
      inShard (Some m) database table =
        (False, Some (Errorf ''error determining backup shard state for %q: %w''
                        [database @ ''.'' @ table] errUnknownBackupShard))) \<and>
   (m (database @ ''.'' @ table) = Some v \<longrightarrow> inShard (Some m) database table = (v, None)) \<and>
   errors_Is (Errorf ''error determining backup shard state for %q: %w''
                [database @ ''.'' @ table] errUnknownBackupShard) errUnknownBackupShard"
  by (simp add: inShard_def mapIndex_def)

theorem inShard_lookup_witness:
  "[''present_db.absent_table'' \<mapsto> False] (''present_db'' @ ''.'' @ ''absent_table'') = Some False \<and>
   inShard (Some [''present_db.absent_table'' \<mapsto> False]) ''present_db'' ''absent_table'' =
     (False, None) \<and>
   [''present_db.absent_table'' \<mapsto> False] (''present_db'' @ ''.'' @ ''nonexistent'') = None \<and>
   inShard (Some [''present_db.absent_table'' \<mapsto> False]) ''present_db'' ''nonexistent'' =
     (False, Some (Errorf ''error determining backup shard state for %q: %w''
                     [''present_db.nonexistent''] errUnknownBackupShard))"
  using inShard_lookup [of "''present_db''" "''absent_table''"
      "[''present_db.absent_table'' \<mapsto> False]" False]
    inShard_lookup [of "''present_db''" "''nonexistent''"
      "[''present_db.absent_table'' \<mapsto> False]" False]
  by simp

section \<open>The orchestration step with the feature flag off\<close>

text \<open>
  C8: with the sharded-operation flag off the step sets every table to a full backup,
  returns no error, and makes no call at all: neither the version accessor nor the
  backup sharder (and so no query) is reached, whatever they would have answered.
\<close>

theorem populateBackupShardField_flag_off:
  "\<not> ShardedOperation b \<Longrightarrow>
     populateBackupShardField b tables =
       (map (\<lambda>t. t\<lparr>BackupType := ShardBackupFull\<rparr>) tables, Returns None, [])"
  by (simp add: populateBackupShardField_def)

theorem populateBackupShardField_flag_off_witness:
  "\<not> ShardedOperation \<lparr>ShardedOperation = False, vers = (-1, None),
                         bs = (Returns (Some [''a.absent'' \<mapsto> False], None), [])\<rparr> \<and>
   populateBackupShardField
     \<lparr>ShardedOperation = False, vers = (-1, None),
      bs = (Returns (Some [''a.absent'' \<mapsto> False], None), [])\<rparr>
     [\<lparr>Database = ''a'', Name = ''present'', BackupType = ShardBackupOther []\<rparr>,
      \<lparr>Database = ''a'', Name = ''absent'', BackupType = ShardBackupSchema\<rparr>] =
   ([\<lparr>Database = ''a'', Name = ''present'', BackupType = ShardBackupFull\<rparr>,
     \<lparr>Database = ''a'', Name = ''absent'', BackupType = ShardBackupFull\<rparr>], Returns None, [])"
  using populateBackupShardField_flag_off
    [of "\<lparr>ShardedOperation = False, vers = (-1, None),
          bs = (Returns (Some [''a.absent'' \<mapsto> False], None), [])\<rparr>"
        "[\<lparr>Database = ''a'', Name = ''present'', BackupType = ShardBackupOther []\<rparr>,
          \<lparr>Database = ''a'', Name = ''absent'', BackupType = ShardBackupSchema\<rparr>]"]
  by simp

end
